theory Spec2Isabelle
  imports Complex_Main "HOL-Library.Multiset"
begin

section \<open>Insomniapp: scoring tables, display ranges, calibration and result history\<close>

text \<open>
  A shallow embedding of the scoring core of \<^verbatim>\<open>insomniapp.py\<close> (class
  \<^verbatim>\<open>InsomniappSuite\<close>). Python floats are read as real numbers and a float literal
  as the decimal fraction it is written as; Python dictionaries whose iteration order the code
  relies on are association lists in insertion order; the instance attributes that a method
  mutates are passed in and returned explicitly.
\<close>

subsection \<open>Test information\<close>

record test_info =
  description :: string
  score_type :: string
  good_range :: string
  lower_better :: bool

definition test_info_table :: "(string \<times> test_info) list" where
  "test_info_table =
    [(''Reaction Time'',
        \<lparr>description = ''Response Speed Test (Inverted Display)'',
         score_type = ''Reaction speed score (higher is better on graph)'',
         good_range = ''Excellent: <0.200s | Good: 0.200-0.300s | Fair: 0.300-0.400s | Poor: >0.400s'',
         lower_better = False\<rparr>),
     (''Digit Span'',
        \<lparr>description = ''Working Memory Capacity'',
         score_type = ''Maximum digits recalled correctly'',
         good_range = ''Excellent: 8+ digits | Good: 6-7 digits | Average: 5-6 digits | Below Avg: <5 digits'',
         lower_better = False\<rparr>),
     (''Mental Math'',
        \<lparr>description = ''Processing Speed & Arithmetic (Time-Based) - Inverted Display'',
         score_type = ''Average time per problem with penalties (higher is better on graph)'',
         good_range = ''Excellent: <6.5s | Good: 6.5-11s | Average: 11-15.5s | Poor: >15.5s'',
         lower_better = False\<rparr>),
     (''Word Recall'',
        \<lparr>description = ''Memory Encoding & Retrieval'',
         score_type = ''Percentage of words correctly recalled'',
         good_range = ''Excellent: 80%+ | Good: 65-79% | Average: 50-64% | Below Avg: <50%'',
         lower_better = False\<rparr>),
     (''Stroop Test'',
        \<lparr>description = ''Attention & Cognitive Inhibition (Triple Interference + Time Pressure) - Inverted Display'',
         score_type = ''Response speed score (higher is better on graph)'',
         good_range = ''Excellent: <1.5s | Good: 1.5-2.0s | Average: 2.0-2.5s | Poor: >2.5s'',
         lower_better = False\<rparr>),
     (''Sustained Attention'',
        \<lparr>description = ''Focus & Mental Endurance (Speed-Based) - Inverted Display'',
         score_type = ''Attention speed score (higher is better on graph)'',
         good_range = ''Excellent: <3s | Good: 3-5s | Average: 5-8s | Poor: >8s'',
         lower_better = False\<rparr>)]"

definition default_test_info :: test_info where
  "default_test_info =
     \<lparr>description = ''Cognitive Assessment'',
      score_type = ''Test score'',
      good_range = ''Ranges vary by test type'',
      lower_better = False\<rparr>"

text \<open>\<^verbatim>\<open>test_info.get(test_name, {...})\<close>: the entry of the table, or the default one.\<close>

definition get_test_info :: "string \<Rightarrow> test_info" where
  "get_test_info test_name =
     (case map_of test_info_table test_name of
        Some info \<Rightarrow> info
      | None \<Rightarrow> default_test_info)"

text \<open>The six test kinds, under the names the program records results with.\<close>

definition test_names :: "string list" where
  "test_names = [''Reaction Time'', ''Digit Span'', ''Mental Math'',
                 ''Word Recall'', ''Stroop Test'', ''Sustained Attention'']"

subsection \<open>Performance bands\<close>

type_synonym band = "string \<times> real \<times> real"

text \<open>
  \<^verbatim>\<open>get_performance_bands\<close>: a dictionary literal per test name, kept in the
  order it is written (the order in which the callers iterate over it); the empty dictionary for
  any other name.
\<close>

definition get_performance_bands :: "string \<Rightarrow> band list" where
  "get_performance_bands test_name =
     (if test_name = ''Reaction Time'' then
        [(''poor'', 0.2, 0.4), (''average'', 0.4, 0.6), (''good'', 0.6, 0.8), (''excellent'', 0.8, 1.0)]
      else if test_name = ''Digit Span'' then
        [(''poor'', 0, 4), (''average'', 4, 8), (''good'', 8, 12), (''excellent'', 12, 16)]
      else if test_name = ''Mental Math'' then
        [(''poor'', 2.0, 6.5), (''average'', 6.5, 11.0), (''good'', 11.0, 15.5), (''excellent'', 15.5, 20.0)]
      else if test_name = ''Stroop Test'' then
        [(''poor'', 1.0, 2.0), (''average'', 2.0, 3.0), (''good'', 3.0, 4.0), (''excellent'', 4.0, 5.0)]
      else if test_name = ''Sustained Attention'' then
        [(''poor'', 1.0, 4.0), (''average'', 4.0, 7.0), (''good'', 7.0, 10.0), (''excellent'', 10.0, 13.0)]
      else if test_name = ''Word Recall'' then
        [(''poor'', 0, 25), (''average'', 25, 50), (''good'', 50, 75), (''excellent'', 75, 100)]
      else [])"

text \<open>
  The fixed range of a test, as the no-data branch of \<^verbatim>\<open>_get_adaptive_y_range\<close>
  returns it; every name other than the five listed gets the percentage range.
\<close>

definition fixed_range :: "string \<Rightarrow> real \<times> real" where
  "fixed_range test_name =
     (if test_name = ''Reaction Time'' then (0.2, 1.0)
      else if test_name = ''Digit Span'' then (0, 16)
      else if test_name = ''Mental Math'' then (2.0, 20.0)
      else if test_name = ''Stroop Test'' then (1.0, 5.0)
      else if test_name = ''Sustained Attention'' then (1.0, 13.0)
      else (0, 100))"

text \<open>
  The band invariant, in the words of the specification: four tiers named poor, average, good,
  excellent in this order, every tier of positive width \<open>(hi - lo) / 4\<close>, every tier
  starting where the previous one ends (so that no two of them overlap), the first one starting
  at \<open>lo\<close> and the last one ending at \<open>hi\<close>.
\<close>

fun contiguous :: "band list \<Rightarrow> bool" where
  "contiguous ((n1, l1, h1) # (n2, l2, h2) # rest) =
     (h1 = l2 \<and> contiguous ((n2, l2, h2) # rest))"
| "contiguous bs = True"

definition band_partition :: "band list \<Rightarrow> real \<Rightarrow> real \<Rightarrow> bool" where
  "band_partition bs lo hi =
     (map fst bs = [''poor'', ''average'', ''good'', ''excellent''] \<and>
      list_all (\<lambda>(band_name, band_min, band_max).
                  band_min < band_max \<and> band_max - band_min = (hi - lo) / 4) bs \<and>
      contiguous bs \<and>
      fst (snd (hd bs)) = lo \<and> snd (snd (last bs)) = hi)"

subsection \<open>Adaptive range\<close>

text \<open>
  \<^verbatim>\<open>min(...)\<close> and \<^verbatim>\<open>max(...)\<close> of a list that the code has checked to be
  non-empty, given as its first element and the rest.
\<close>

definition py_min :: "real \<Rightarrow> real list \<Rightarrow> real" where
  "py_min x xs = fold min xs x"

definition py_max :: "real \<Rightarrow> real list \<Rightarrow> real" where
  "py_max x xs = fold max xs x"

text \<open>The test of the loop that collects \<^verbatim>\<open>bands_in_range\<close>.\<close>

definition in_range :: "real \<Rightarrow> real \<Rightarrow> band \<Rightarrow> bool" where
  "in_range min_val max_val b =
     (case b of (band_name, band_min, band_max) \<Rightarrow> min_val < band_max \<and> max_val \<ge> band_min)"

definition get_adaptive_y_range :: "string \<Rightarrow> real list \<Rightarrow> real \<times> real" where
  "get_adaptive_y_range test_name data_values =
     (let performance_bands = get_performance_bands test_name in
      case data_values of
        [] \<Rightarrow> fixed_range test_name
      | v # vs \<Rightarrow>
          if performance_bands = [] then fixed_range test_name
          else
            let min_val = py_min v vs;
                max_val = py_max v vs;
                bands_in_range = filter (in_range min_val max_val) performance_bands
            in case bands_in_range of
                 [] \<Rightarrow>
                   (let padding = (if max_val \<noteq> min_val then (max_val - min_val) * 0.1 else 1)
                    in (min_val - padding, max_val + padding))
               | b # bs \<Rightarrow>
                   (let y_min = py_min (fst (snd b)) (map (\<lambda>(n, band_min, band_max). band_min) bs);
                        y_max = py_max (snd (snd b)) (map (\<lambda>(n, band_min, band_max). band_max) bs)
                    in (y_min, y_max)))"

subsection \<open>Active bands\<close>

text \<open>
  \<^verbatim>\<open>d[k] = v\<close> on a dictionary kept in insertion order: an existing key keeps its
  place and gets the new value, a new key goes to the end.
\<close>

fun dict_set :: "('k \<times> 'v) list \<Rightarrow> 'k \<Rightarrow> 'v \<Rightarrow> ('k \<times> 'v) list" where
  "dict_set [] k v = [(k, v)]"
| "dict_set ((k', v') # kvs) k v =
     (if k' = k then (k, v) # kvs else (k', v') # dict_set kvs k v)"

fun active_bands_loop :: "real \<Rightarrow> real \<Rightarrow> band list \<Rightarrow> band list \<Rightarrow> band list" where
  "active_bands_loop y_min y_max [] active_bands = active_bands"
| "active_bands_loop y_min y_max ((band_name, band_min, band_max) # rest) active_bands =
     (if band_min < y_max \<and> band_max > y_min then
        (let visible_min = max band_min y_min;
             visible_max = min band_max y_max
         in active_bands_loop y_min y_max rest
              (dict_set active_bands band_name (visible_min, visible_max)))
      else active_bands_loop y_min y_max rest active_bands)"

definition get_active_performance_bands :: "string \<Rightarrow> real \<Rightarrow> real \<Rightarrow> band list" where
  "get_active_performance_bands test_name y_min y_max =
     (let all_bands = get_performance_bands test_name
      in active_bands_loop y_min y_max all_bands [])"

text \<open>
  The specification's description of the same result: the bands of the table that strictly
  overlap the window, each cut down to the window.
\<close>

definition overlaps :: "real \<Rightarrow> real \<Rightarrow> band \<Rightarrow> bool" where
  "overlaps y_min y_max b =
     (case b of (band_name, b_min, b_max) \<Rightarrow> b_min < y_max \<and> b_max > y_min)"

definition clip :: "real \<Rightarrow> real \<Rightarrow> band \<Rightarrow> band" where
  "clip y_min y_max b =
     (case b of (band_name, b_min, b_max) \<Rightarrow> (band_name, max b_min y_min, min b_max y_max))"

subsection \<open>Environment signature\<close>

text \<open>
  What \<^verbatim>\<open>_terminal_signature\<close> reads: \<^verbatim>\<open>platform.system()\<close>,
  \<^verbatim>\<open>platform.release()\<close>, \<^verbatim>\<open>platform.python_version()\<close> and the process
  environment \<^verbatim>\<open>os.environ\<close>.
\<close>

record environment =
  platform_system :: string
  platform_release :: string
  platform_python_version :: string
  environ :: "string \<rightharpoonup> string"

record signature =
  os :: string
  os_version :: string
  python :: string
  terminal_program :: string
  terminal_version :: string
  shell :: string

definition environ_get :: "environment \<Rightarrow> string \<Rightarrow> string \<Rightarrow> string" where
  "environ_get e name dflt = (case environ e name of Some v \<Rightarrow> v | None \<Rightarrow> dflt)"

definition terminal_signature :: "environment \<Rightarrow> signature" where
  "terminal_signature e =
     (let term_prog = environ_get e ''TERM_PROGRAM'' [];
          term_prog_ver = environ_get e ''TERM_PROGRAM_VERSION'' [];
          shell = environ_get e ''SHELL'' []
      in \<lparr>os = platform_system e,
          os_version = platform_release e,
          python = platform_python_version e,
          terminal_program = term_prog,
          terminal_version = term_prog_ver,
          shell = shell\<rparr>)"

text \<open>The format string of \<^verbatim>\<open>_terminal_signature_key\<close>, applied to a signature.\<close>

definition signature_key :: "signature \<Rightarrow> string" where
  "signature_key sig =
     os sig @ ''|'' @ terminal_program sig @ ''|'' @ terminal_version sig @ ''|'' @ shell sig"

definition terminal_signature_key :: "environment \<Rightarrow> string" where
  "terminal_signature_key e = (let sig = terminal_signature e in signature_key sig)"

subsection \<open>Python library functions used by the core\<close>

datatype py_error = IndexError | StatisticsError | TypeError

text \<open>\<^verbatim>\<open>round(x)\<close>: the nearest integer, a tie going to the even neighbour.\<close>

definition py_round :: "real \<Rightarrow> int" where
  "py_round x =
     (let f = \<lfloor>x\<rfloor>; d = x - of_int f
      in if d < 1 / 2 then f
         else if 1 / 2 < d then f + 1
         else if even f then f else f + 1)"

text \<open>\<^verbatim>\<open>round(x, ndigits)\<close> for a non-negative number of digits.\<close>

definition py_round_digits :: "real \<Rightarrow> nat \<Rightarrow> real" where
  "py_round_digits x ndigits = of_int (py_round (x * 10 ^ ndigits)) / 10 ^ ndigits"

text \<open>
  \<^verbatim>\<open>xs[i]\<close>: an index from \<open>0\<close> up to the length reads from the front, one from
  \<open>-1\<close> down to minus the length reads from the back, any other raises.
\<close>

definition py_index :: "'a list \<Rightarrow> int \<Rightarrow> py_error + 'a" where
  "py_index xs i =
     (if 0 \<le> i \<and> i < int (length xs) then Inr (xs ! nat i)
      else if i < 0 \<and> - int (length xs) \<le> i then Inr (xs ! nat (int (length xs) + i))
      else Inl IndexError)"

text \<open>
  \<^verbatim>\<open>statistics.median\<close>: sorts its argument; the middle element of an odd number of
  data, the mean of the two middle ones of an even number, an error for no data.
\<close>

definition median :: "real list \<Rightarrow> py_error + real" where
  "median data =
     (let data = sort data; n = length data
      in if n = 0 then Inl StatisticsError
         else if n mod 2 = 1 then Inr (data ! (n div 2))
         else (let i = n div 2 in Inr ((data ! (i - 1) + data ! i) / 2)))"

subsection \<open>The suite's state\<close>

datatype json_value = JNum real | JList "real list"

record result =
  timestamp :: string
  score :: real
  details :: "(string \<times> json_value) list"

record calibration_entry =
  median_ms :: real
  p10_ms :: real
  p90_ms :: real
  samples :: nat
  method_label :: string
  calibrated :: string
  env :: signature

text \<open>
  The attributes of \<^verbatim>\<open>InsomniappSuite\<close> that the core reads and writes: the result
  histories by test name, the calibration entries by signature key, and what the last
  \<^verbatim>\<open>save_results\<close> and \<^verbatim>\<open>save_terminal_calibration\<close> wrote to their files
  (\<open>None\<close> before the first write). Of an entry, \<open>method_label\<close> is the field
  \<^verbatim>\<open>'method'\<close> and \<open>calibrated\<close> the field
  \<^verbatim>\<open>'timestamp'\<close>.
\<close>

record suite =
  results :: "string \<rightharpoonup> result list"
  terminal_calibration :: "string \<rightharpoonup> calibration_entry"
  results_written :: "(string \<rightharpoonup> result list) option"
  calibration_written :: "(string \<rightharpoonup> calibration_entry) option"

definition save_results :: "suite \<Rightarrow> suite" where
  "save_results st = st\<lparr>results_written := Some (results st)\<rparr>"

definition save_terminal_calibration :: "suite \<Rightarrow> suite" where
  "save_terminal_calibration st = st\<lparr>calibration_written := Some (terminal_calibration st)\<rparr>"

text \<open>
  \<^verbatim>\<open>get_active_baseline_seconds\<close>. An entry of the model always has its
  \<^verbatim>\<open>median_ms\<close>, as every entry that the program writes has.
\<close>

definition get_active_baseline_seconds :: "environment \<Rightarrow> suite \<Rightarrow> real" where
  "get_active_baseline_seconds e st =
     (let key = terminal_signature_key e
      in case terminal_calibration st key of
           Some entry \<Rightarrow> median_ms entry / 1000
         | None \<Rightarrow> 0)"

subsection \<open>Recording a result\<close>

text \<open>
  \<^verbatim>\<open>record_result\<close>; \<open>now\<close> is \<^verbatim>\<open>datetime.now().isoformat()\<close>. A test
  name without a history gets the empty one first; \<^verbatim>\<open>details or {}\<close> turns a missing
  dictionary into the empty one.
\<close>

definition record_result ::
  "string \<Rightarrow> real \<Rightarrow> (string \<times> json_value) list option \<Rightarrow> string \<Rightarrow> suite \<Rightarrow> suite" where
  "record_result test_name score_v details_v now st =
     (let history = (case results st test_name of None \<Rightarrow> [] | Some h \<Rightarrow> h);
          result = \<lparr>timestamp = now, score = score_v,
                    details = (case details_v of None \<Rightarrow> [] | Some d \<Rightarrow> d)\<rparr>
      in save_results (st\<lparr>results := (results st)(test_name \<mapsto> history @ [result])\<rparr>))"

subsection \<open>Reaction time: the adjusted score\<close>

text \<open>
  The end of a completed \<^verbatim>\<open>reaction_time_test\<close>: \<open>trial_times\<close> is the list
  \<^verbatim>\<open>times\<close> of the reaction times of its trials, five when the test completes
  (an interrupted test records nothing and is not modelled).
\<close>

definition avg_adjusted :: "real \<Rightarrow> real \<Rightarrow> real" where
  "avg_adjusted average_time baseline = max 0 (average_time - baseline)"

definition reaction_time_test :: "real list \<Rightarrow> environment \<Rightarrow> string \<Rightarrow> suite \<Rightarrow> suite" where
  "reaction_time_test trial_times e now st =
     (let average_time = sum_list trial_times / real (length trial_times);
          baseline = get_active_baseline_seconds e st;
          adjusted = avg_adjusted average_time baseline
      in record_result ''Reaction Time'' average_time
           (Some [(''trials'', JNum 5),
                  (''times'', JList (map (\<lambda>t. py_round_digits t 3) trial_times)),
                  (''adjusted_average_s'', JNum (py_round_digits adjusted 3)),
                  (''baseline_ms'', JNum (py_round_digits (baseline * 1000) 1))])
           now st)"

text \<open>
  The adjusted score of a stored reaction-time result, as \<^verbatim>\<open>display_results\<close> and
  \<^verbatim>\<open>display_all_results\<close> compute it: the stored adjusted average if the details have
  one, else the raw score less the current baseline, not below zero. A stored value that is not
  a number fails when it is formatted or summed.
\<close>

definition adjusted_score :: "result \<Rightarrow> real \<Rightarrow> py_error + real" where
  "adjusted_score r baseline =
     (case map_of (details r) ''adjusted_average_s'' of
        Some (JNum a) \<Rightarrow> Inr a
      | Some (JList l) \<Rightarrow> Inl TypeError
      | None \<Rightarrow> Inr (max 0 (score r - baseline)))"

subsection \<open>Trend\<close>

text \<open>
  The trend lines of \<^verbatim>\<open>display_all_results\<close>: for six scores or more, the verdict
  and the change that are printed; nothing for fewer.
\<close>

definition trend :: "string \<Rightarrow> real list \<Rightarrow> (string \<times> real) option" where
  "trend test_name scores =
     (let info = get_test_info test_name in
      if length scores \<ge> 6 then
        (let first_three = sum_list (take 3 scores) / 3;
             last_three = sum_list (drop (length scores - 3) scores) / 3
         in if lower_better info then
              Some (if last_three < first_three then ''improving'' else ''declining'',
                    \<bar>last_three - first_three\<bar>)
            else
              Some (if last_three > first_three then ''improving'' else ''declining'',
                    \<bar>last_three - first_three\<bar>))
      else None)"

subsection \<open>Calibration: reducing and saving the samples\<close>

text \<open>
  The statistics of \<^verbatim>\<open>_save_calibration_results\<close>: the samples (seconds) in
  milliseconds, sorted, with their median and the two percentiles read at
  \<^verbatim>\<open>int(max(0, round(p * (len(samples_ms) - 1))))\<close>.
\<close>

definition percentile_index :: "real \<Rightarrow> nat \<Rightarrow> int" where
  "percentile_index p n = max 0 (py_round (p * of_int (int n - 1)))"

definition calibration_stats :: "real list \<Rightarrow> py_error + (real list \<times> real \<times> real \<times> real)" where
  "calibration_stats samples_s =
     (let samples_ms = sort (map (\<lambda>s. s * 1000) samples_s) in
      case median samples_ms of
        Inl err \<Rightarrow> Inl err
      | Inr median_v \<Rightarrow>
          (case py_index samples_ms (percentile_index 0.10 (length samples_ms)) of
             Inl err \<Rightarrow> Inl err
           | Inr p10_v \<Rightarrow>
               (case py_index samples_ms (percentile_index 0.90 (length samples_ms)) of
                  Inl err \<Rightarrow> Inl err
                | Inr p90_v \<Rightarrow> Inr (samples_ms, median_v, p10_v, p90_v))))"

text \<open>
  What the method prints: that there are no samples, or the summary of the saved calibration
  (method, median, the two percentiles, number of samples).
\<close>

datatype report =
  No_samples_recorded
| Calibration_complete string real real real nat

definition save_calibration_results ::
  "real list \<Rightarrow> string \<Rightarrow> environment \<Rightarrow> string \<Rightarrow> suite \<Rightarrow> py_error + (report \<times> suite)" where
  "save_calibration_results samples_s method_name e now st =
     (if samples_s = [] then Inr (No_samples_recorded, st)
      else
        case calibration_stats samples_s of
          Inl err \<Rightarrow> Inl err
        | Inr (samples_ms, median_v, p10_v, p90_v) \<Rightarrow>
            (let sig = terminal_signature e;
                 key = terminal_signature_key e;
                 entry = \<lparr>median_ms = py_round_digits median_v 1,
                          p10_ms = py_round_digits p10_v 1,
                          p90_ms = py_round_digits p90_v 1,
                          samples = length samples_ms,
                          method_label = method_name,
                          calibrated = now,
                          env = sig\<rparr>;
                 st' = save_terminal_calibration
                         (st\<lparr>terminal_calibration := (terminal_calibration st)(key \<mapsto> entry)\<rparr>)
             in Inr (Calibration_complete method_name median_v p10_v p90_v (length samples_ms),
                     st')))"

subsection \<open>Calibration: the trial loops\<close>

text \<open>
  What one trial of an automated calibration run does: the keystroke arrives and the elapsed
  time is appended to the samples (\<open>Response\<close>); the same, and the user interrupts the
  pause that follows (\<open>Response_interrupted\<close>); the automation command fails
  (\<open>CalledProcessError\<close>); the user interrupts before a time is taken
  (\<open>KeyboardInterrupt\<close>).
\<close>

datatype trial_outcome =
  Response real
| Response_interrupted real
| CalledProcessError
| KeyboardInterrupt

text \<open>
  The loops run over the outcomes of trials \<open>1, \<dots>, trial_count\<close> and carry the samples,
  the error counter and the number of trials started. The AppleScript loop leaves at its first
  failed command; the PowerShell loop when its error counter reaches three; both at an
  interrupt.
\<close>

fun macos_trials :: "trial_outcome list \<Rightarrow> real list \<Rightarrow> nat \<Rightarrow> nat \<Rightarrow> real list \<times> nat \<times> nat" where
  "macos_trials [] samples_s errors started = (samples_s, errors, started)"
| "macos_trials (Response dt # rest) samples_s errors started =
     macos_trials rest (samples_s @ [dt]) errors (started + 1)"
| "macos_trials (Response_interrupted dt # rest) samples_s errors started =
     (samples_s @ [dt], errors, started + 1)"
| "macos_trials (CalledProcessError # rest) samples_s errors started =
     (samples_s, errors + 1, started + 1)"
| "macos_trials (KeyboardInterrupt # rest) samples_s errors started =
     (samples_s, errors, started + 1)"

fun sendkeys_trials :: "trial_outcome list \<Rightarrow> real list \<Rightarrow> nat \<Rightarrow> nat \<Rightarrow> real list \<times> nat \<times> nat" where
  "sendkeys_trials [] samples_s errors started = (samples_s, errors, started)"
| "sendkeys_trials (Response dt # rest) samples_s errors started =
     sendkeys_trials rest (samples_s @ [dt]) errors (started + 1)"
| "sendkeys_trials (Response_interrupted dt # rest) samples_s errors started =
     (samples_s @ [dt], errors, started + 1)"
| "sendkeys_trials (CalledProcessError # rest) samples_s errors started =
     (if errors + 1 \<ge> 3 then (samples_s, errors + 1, started + 1)
      else sendkeys_trials rest samples_s (errors + 1) (started + 1))"
| "sendkeys_trials (KeyboardInterrupt # rest) samples_s errors started =
     (samples_s, errors, started + 1)"

text \<open>
  The two automated runs, from \<^verbatim>\<open>samples = []\<close> on (for the PowerShell run: once its
  capability test has passed); \<open>outcome i\<close> is what trial \<open>i\<close> does if it is reached.
\<close>

definition calibrate_macos_terminal ::
  "nat \<Rightarrow> (nat \<Rightarrow> trial_outcome) \<Rightarrow> environment \<Rightarrow> string \<Rightarrow> suite \<Rightarrow> py_error + (report \<times> suite)" where
  "calibrate_macos_terminal trial_count outcome e now st =
     (case macos_trials (map outcome [1 ..< trial_count + 1]) [] 0 0 of
        (samples_s, errors, started) \<Rightarrow>
          save_calibration_results samples_s ''AppleScript automation'' e now st)"

definition calibrate_windows_sendkeys ::
  "nat \<Rightarrow> (nat \<Rightarrow> trial_outcome) \<Rightarrow> environment \<Rightarrow> string \<Rightarrow> suite \<Rightarrow> py_error + (report \<times> suite)" where
  "calibrate_windows_sendkeys trial_count outcome e now st =
     (case sendkeys_trials (map outcome [1 ..< trial_count + 1]) [] 0 0 of
        (samples_s, errors, started) \<Rightarrow>
          save_calibration_results samples_s ''PowerShell SendKeys'' e now st)"

text \<open>
  The times that a list of trials measures, the number of failed commands among them, and the
  trials that an interrupt ends or that do not run to their end.
\<close>

fun measured :: "trial_outcome list \<Rightarrow> real list" where
  "measured [] = []"
| "measured (Response dt # rest) = dt # measured rest"
| "measured (Response_interrupted dt # rest) = dt # measured rest"
| "measured (CalledProcessError # rest) = measured rest"
| "measured (KeyboardInterrupt # rest) = measured rest"



fun completes :: "trial_outcome \<Rightarrow> bool" where
  "completes (Response dt) = True"
| "completes x = False"

subsection \<open>Notions of the specification\<close>

text \<open>
  The bands that touch the data range of a non-empty list of values, in the words of the
  specification: those with \<open>lo < b_max\<close> and \<open>hi \<ge> b_min\<close>, for \<open>lo\<close> the least
  and \<open>hi\<close> the greatest value.
\<close>

definition touched_bands :: "string \<Rightarrow> real list \<Rightarrow> band list" where
  "touched_bands test_name vs =
     filter (\<lambda>(band_name, b_min, b_max). Min (set vs) < b_max \<and> Max (set vs) \<ge> b_min)
       (get_performance_bands test_name)"

text \<open>
  The second half of \<^verbatim>\<open>_get_adaptive_y_range\<close> on its own, as a function of the
  least value, the greatest value and the band table.
\<close>

definition band_range :: "real \<Rightarrow> real \<Rightarrow> band list \<Rightarrow> real \<times> real" where
  "band_range lo hi bs =
     (case filter (in_range lo hi) bs of
        [] \<Rightarrow>
          (let padding = (if hi \<noteq> lo then (hi - lo) * 0.1 else 1)
           in (lo - padding, hi + padding))
      | b # bs' \<Rightarrow>
          (py_min (fst (snd b)) (map (\<lambda>(n, band_min, band_max). band_min) bs'),
           py_max (snd (snd b)) (map (\<lambda>(n, band_min, band_max). band_max) bs')))"

text \<open>The result history of a test: the empty one for a test that has none yet.\<close>

definition history :: "suite \<Rightarrow> string \<Rightarrow> result list" where
  "history st test_name = (case results st test_name of None \<Rightarrow> [] | Some h \<Rightarrow> h)"

text \<open>
  The median of a sorted list, and the nearest-rank percentile: the element at index
  \<open>round (p * (n - 1))\<close>, clamped into \<open>0, \<dots>, n - 1\<close>.
\<close>

definition middle :: "real list \<Rightarrow> real" where
  "middle xs =
     (let n = length xs
      in if odd n then xs ! (n div 2) else (xs ! (n div 2 - 1) + xs ! (n div 2)) / 2)"

definition nearest_rank :: "real \<Rightarrow> real list \<Rightarrow> real" where
  "nearest_rank p xs =
     (let n = int (length xs);
          i = max 0 (min (n - 1) (py_round (p * of_int (n - 1))))
      in xs ! nat i)"

text \<open>The adjusted average stored with the latest reaction-time result, if there is one.\<close>

definition stored_adjusted :: "suite \<Rightarrow> real option" where
  "stored_adjusted st =
     (let h = history st ''Reaction Time''
      in if h = [] then None
         else (case map_of (details (last h)) ''adjusted_average_s'' of
                 Some (JNum a) \<Rightarrow> Some a
               | _ \<Rightarrow> None))"

section \<open>Verification\<close>

subsection \<open>The band table\<close>

text \<open>
  C4. For each of the six test kinds the band table consists of exactly four tiers, named poor,
  average, good and excellent in ascending order, which are contiguous, do not overlap, have the
  common width \<open>(domain_max - domain_min) / 4\<close> and span exactly the fixed domain of the
  kind: 0.2 to 1.0 for reaction speed, 0 to 16 for the working-memory span, 2.0 to 20.0 for
  arithmetic speed, 0 to 100 for word recall, 1.0 to 5.0 for the Stroop response and 1.0 to
  13.0 for the sustained count.
\<close>

theorem band_table_partitions_domain:
  "band_partition (get_performance_bands ''Reaction Time'') 0.2 1.0 \<and>
   band_partition (get_performance_bands ''Digit Span'') 0 16 \<and>
   band_partition (get_performance_bands ''Mental Math'') 2.0 20.0 \<and>
   band_partition (get_performance_bands ''Word Recall'') 0 100 \<and>
   band_partition (get_performance_bands ''Stroop Test'') 1.0 5.0 \<and>
   band_partition (get_performance_bands ''Sustained Attention'') 1.0 13.0"
  by (simp add: band_partition_def get_performance_bands_def)

subsection \<open>Active bands\<close>

lemma dict_set_fresh: "k \<notin> fst ` set kvs \<Longrightarrow> dict_set kvs k v = kvs @ [(k, v)]"
  by (induction kvs) auto

text \<open>
  On a table without repeated names the loop appends, in the table's order, the clipped
  version of every band that overlaps the window.
\<close>

lemma active_bands_loop_distinct:
  "distinct (map fst bs) \<Longrightarrow> fst ` set bs \<inter> fst ` set acc = {} \<Longrightarrow>
   active_bands_loop y_min y_max bs acc =
     acc @ map (clip y_min y_max) (filter (overlaps y_min y_max) bs)"
proof (induction bs arbitrary: acc)
  case Nil
  then show ?case by simp
next
  case (Cons b bs)
  obtain n l h where b: "b = (n, l, h)" by (cases b)
  have d: "distinct (map fst bs)" using Cons.prems by simp
  show ?case
  proof (cases "l < y_max \<and> h > y_min")
    case True
    from Cons.prems b have fresh: "n \<notin> fst ` set acc" by auto
    have "fst ` set bs \<inter> fst ` set (acc @ [(n, max l y_min, min h y_max)]) = {}"
      using Cons.prems b by auto
    from Cons.IH [OF d this] True fresh show ?thesis
      by (simp add: b dict_set_fresh overlaps_def clip_def)
  next
    case False
    have "fst ` set bs \<inter> fst ` set acc = {}" using Cons.prems by auto
    from Cons.IH [OF d this] False show ?thesis
      by (auto simp add: b overlaps_def clip_def)
  qed
qed

lemma performance_bands_distinct: "distinct (map fst (get_performance_bands n))"
  by (simp add: get_performance_bands_def)

lemma active_bands_eq:
  "get_active_performance_bands n y_min y_max =
     map (clip y_min y_max) (filter (overlaps y_min y_max) (get_performance_bands n))"
  using active_bands_loop_distinct [OF performance_bands_distinct, of n "[]" y_min y_max]
  by (simp add: get_active_performance_bands_def)

text \<open>
  C5. For every test name and every window \<open>(y_min, y_max)\<close> the active bands are exactly
  the bands of the full table with \<open>b_min < y_max\<close> and \<open>b_max > y_min\<close>, in the order
  of the table, each clipped to \<open>(max b_min y_min, min b_max y_max)\<close>; every interval
  returned lies within the window; and when no band overlaps, the result is the empty mapping.
\<close>

theorem active_bands_clipped:
  "get_active_performance_bands n y_min y_max =
     map (clip y_min y_max) (filter (overlaps y_min y_max) (get_performance_bands n)) \<and>
   list_all (\<lambda>(band_name, visible_min, visible_max). y_min \<le> visible_min \<and> visible_max \<le> y_max)
     (get_active_performance_bands n y_min y_max) \<and>
   (filter (overlaps y_min y_max) (get_performance_bands n) = [] \<longrightarrow>
      get_active_performance_bands n y_min y_max = [])"
  by (auto simp add: active_bands_eq list_all_iff clip_def)

theorem active_bands_clipped_witness:
  "filter (overlaps 20 30) (get_performance_bands ''Digit Span'') = [] \<and>
   get_active_performance_bands ''Digit Span'' 20 30 = [] \<and>
   get_active_performance_bands ''Digit Span'' 6 10 = [(''average'', 6, 8), (''good'', 8, 10)]"
  using active_bands_clipped [of "''Digit Span''" 20 30]
    active_bands_clipped [of "''Digit Span''" 6 10]
  by (simp add: get_performance_bands_def overlaps_def clip_def)

subsection \<open>Recording a result\<close>

text \<open>
  C10. Recording a result for a test appends exactly one entry, the new one, to the end of
  that test's history (the empty history if the test had none) and leaves the history of every
  other test as it was; the calibration entries are not touched, and what is written to the
  results file is the new set of histories.
\<close>

theorem record_result_appends_one:
  "results (record_result test_name s d now st) test_name =
     Some (history st test_name @
           [\<lparr>timestamp = now, score = s, details = (case d of None \<Rightarrow> [] | Some x \<Rightarrow> x)\<rparr>]) \<and>
   (\<forall>other. other \<noteq> test_name \<longrightarrow>
      results (record_result test_name s d now st) other = results st other) \<and>
   terminal_calibration (record_result test_name s d now st) = terminal_calibration st \<and>
   results_written (record_result test_name s d now st) =
     Some (results (record_result test_name s d now st))"
  by (simp add: record_result_def save_results_def history_def Let_def)

theorem record_result_appends_one_witness:
  "''Digit Span'' \<noteq> ''Word Recall'' \<and>
   results (record_result ''Word Recall'' 80 None ''2024-01-02T09:00:00''
      \<lparr>results = [''Digit Span'' \<mapsto> [\<lparr>timestamp = ''2024-01-01T10:00:00'', score = 6, details = []\<rparr>]],
       terminal_calibration = Map.empty, results_written = None, calibration_written = None\<rparr>)
     ''Digit Span'' =
     Some [\<lparr>timestamp = ''2024-01-01T10:00:00'', score = 6, details = []\<rparr>] \<and>
   results (record_result ''Word Recall'' 80 None ''2024-01-02T09:00:00''
      \<lparr>results = [''Digit Span'' \<mapsto> [\<lparr>timestamp = ''2024-01-01T10:00:00'', score = 6, details = []\<rparr>]],
       terminal_calibration = Map.empty, results_written = None, calibration_written = None\<rparr>)
     ''Word Recall'' =
     Some [\<lparr>timestamp = ''2024-01-02T09:00:00'', score = 80, details = []\<rparr>]"
  using record_result_appends_one [of "''Word Recall''" 80 None "''2024-01-02T09:00:00''"
      "\<lparr>results = [''Digit Span'' \<mapsto> [\<lparr>timestamp = ''2024-01-01T10:00:00'', score = 6, details = []\<rparr>]],
        terminal_calibration = Map.empty, results_written = None, calibration_written = None\<rparr>"]
  by (simp add: history_def)

subsection \<open>Rounding and indexing\<close>

lemma sort_Nil_iff: "sort xs = [] \<longleftrightarrow> xs = ([]::real list)"
  by (metis length_sort length_0_conv)

lemma py_round_nonneg: "0 \<le> x \<Longrightarrow> 0 \<le> py_round x"
  by (auto simp: py_round_def Let_def)

lemma py_round_le: "x \<le> of_int k \<Longrightarrow> py_round x \<le> k"
proof -
  assume a: "x \<le> of_int k"
  have f: "\<lfloor>x\<rfloor> \<le> k" using a by (simp add: floor_le_iff)
  show ?thesis
  proof (cases "x = of_int \<lfloor>x\<rfloor>")
    case True
    then have "x - of_int \<lfloor>x\<rfloor> = 0" by simp
    then show ?thesis using f by (simp add: py_round_def Let_def)
  next
    case False
    then have "of_int \<lfloor>x\<rfloor> < x" using of_int_floor_le [of x] by linarith
    with a have "of_int \<lfloor>x\<rfloor> < (of_int k :: real)" by linarith
    then have "\<lfloor>x\<rfloor> < k" by simp
    then show ?thesis by (simp add: py_round_def Let_def)
  qed
qed

lemma py_round_digits_nonneg: "0 \<le> x \<Longrightarrow> 0 \<le> py_round_digits x n"
  by (simp add: py_round_digits_def py_round_nonneg)

lemma percentile_index_bounds:
  assumes "0 \<le> p" "p \<le> 1" "0 < n"
  shows "0 \<le> percentile_index p n \<and> percentile_index p n < int n"
proof -
  have "p * of_int (int n - 1) \<le> of_int (int n - 1)"
    using assms by (simp add: mult_left_le_one_le)
  then have "py_round (p * of_int (int n - 1)) \<le> int n - 1" by (rule py_round_le)
  then show ?thesis using assms by (simp add: percentile_index_def)
qed

lemma py_index_in_range:
  "0 \<le> i \<Longrightarrow> i < int (length xs) \<Longrightarrow> py_index xs i = Inr (xs ! nat i)"
  by (simp add: py_index_def)

subsection \<open>The calibration statistics\<close>

lemma median_nonempty:
  "xs \<noteq> [] \<Longrightarrow> median xs = Inr (middle (sort xs))"
  by (simp add: median_def middle_def Let_def sort_Nil_iff odd_iff_mod_2_eq_one)

text \<open>The index that the code reads is never out of range, so the read never fails.\<close>

lemma nearest_rank_eq:
  assumes "0 \<le> p" "p \<le> 1" "xs \<noteq> []"
  shows "py_index xs (percentile_index p (length xs)) = Inr (nearest_rank p xs)"
proof -
  have n: "0 < length xs" using assms by simp
  from percentile_index_bounds [OF assms(1,2) n]
  have b: "0 \<le> percentile_index p (length xs)" "percentile_index p (length xs) < int (length xs)"
    by simp_all
  have "max 0 (min (int (length xs) - 1) (py_round (p * of_int (int (length xs) - 1)))) =
        percentile_index p (length xs)"
    using b by (simp add: percentile_index_def)
  then show ?thesis using b by (simp add: py_index_in_range nearest_rank_def Let_def)
qed

lemma calibration_stats_eq:
  assumes "samples_s \<noteq> []"
  shows "calibration_stats samples_s =
     (let ms = sort (map (\<lambda>s. s * 1000) samples_s)
      in Inr (ms, middle ms, nearest_rank 0.10 ms, nearest_rank 0.90 ms))"
proof -
  let ?ms = "sort (map (\<lambda>s. s * 1000) samples_s)"
  have ne: "?ms \<noteq> []" using assms by (simp add: sort_Nil_iff)
  have m: "median ?ms = Inr (middle ?ms)"
    using ne by (simp add: median_nonempty sorted_sort_id)
  have p10: "py_index ?ms (percentile_index 0.10 (length ?ms)) = Inr (nearest_rank 0.10 ?ms)"
    using ne by (intro nearest_rank_eq) simp_all
  have p90: "py_index ?ms (percentile_index 0.90 (length ?ms)) = Inr (nearest_rank 0.90 ?ms)"
    using ne by (intro nearest_rank_eq) simp_all
  show ?thesis
    unfolding calibration_stats_def Let_def m p10 p90 by simp
qed

text \<open>
  C7. The reduction of a non-empty list of samples never fails; it yields the samples in
  milliseconds sorted ascending (a rearrangement of them), their median, and as 10th and 90th
  percentile the elements at index \<open>round (p * (n - 1))\<close> clamped into
  \<open>0, \<dots>, n - 1\<close>, not interpolated. For the samples 10, 20, 30, 40, 50 ms this gives
  the median 30, the 10th percentile 10 and the 90th percentile 50.
\<close>

theorem calibration_stats_nearest_rank:
  "(samples_s \<noteq> [] \<longrightarrow>
      (let ms = sort (map (\<lambda>s. s * 1000) samples_s)
       in calibration_stats samples_s =
            Inr (ms, middle ms, nearest_rank 0.10 ms, nearest_rank 0.90 ms) \<and>
          sorted ms \<and> mset ms = mset (map (\<lambda>s. s * 1000) samples_s))) \<and>
   calibration_stats [0.01, 0.02, 0.03, 0.04, 0.05] = Inr ([10, 20, 30, 40, 50], 30, 10, 50)"
proof -
  have "calibration_stats [0.01, 0.02, 0.03, 0.04, 0.05] = Inr ([10, 20, 30, 40, 50], 30, 10, 50)"
    by code_simp
  then show ?thesis
    by (simp add: calibration_stats_eq Let_def)
qed

theorem calibration_stats_nearest_rank_witness:
  "[0.03, 0.05, 0.01, 0.04, 0.02, 0.06] \<noteq> ([]::real list) \<and>
   calibration_stats [0.03, 0.05, 0.01, 0.04, 0.02, 0.06] =
     Inr ([10, 20, 30, 40, 50, 60], 35, 10, 50)"
proof -
  have ne: "[0.03, 0.05, 0.01, 0.04, 0.02, 0.06] \<noteq> ([]::real list)" by simp
  have srt: "sort (map (\<lambda>s. s * 1000) [0.03, 0.05, 0.01, 0.04, 0.02, 0.06::real]) =
      [10, 20, 30, 40, 50, 60]"
    by simp
  have vals: "middle [10, 20, 30, 40, 50, 60] = 35 \<and>
      nearest_rank 0.10 [10, 20, 30, 40, 50, 60] = 10 \<and>
      nearest_rank 0.90 [10, 20, 30, 40, 50, 60] = 50"
    by code_simp
  from calibration_stats_nearest_rank [of "[0.03, 0.05, 0.01, 0.04, 0.02, 0.06]"] ne srt
  have "calibration_stats [0.03, 0.05, 0.01, 0.04, 0.02, 0.06] =
      Inr ([10, 20, 30, 40, 50, 60], middle [10, 20, 30, 40, 50, 60],
           nearest_rank 0.10 [10, 20, 30, 40, 50, 60], nearest_rank 0.90 [10, 20, 30, 40, 50, 60])"
    by (simp add: Let_def)
  with vals ne show ?thesis by simp
qed

subsection \<open>Saving a calibration\<close>

lemma save_calibration_results_nonempty:
  assumes "samples_s \<noteq> []"
  shows "save_calibration_results samples_s m e now st =
     (let ms = sort (map (\<lambda>s. s * 1000) samples_s);
          entry = \<lparr>median_ms = py_round_digits (middle ms) 1,
                   p10_ms = py_round_digits (nearest_rank 0.10 ms) 1,
                   p90_ms = py_round_digits (nearest_rank 0.90 ms) 1,
                   samples = length samples_s,
                   method_label = m,
                   calibrated = now,
                   env = terminal_signature e\<rparr>;
          cal = (terminal_calibration st)(terminal_signature_key e \<mapsto> entry)
      in Inr (Calibration_complete m (middle ms) (nearest_rank 0.10 ms) (nearest_rank 0.90 ms)
                (length samples_s),
              st\<lparr>terminal_calibration := cal, calibration_written := Some cal\<rparr>))"
  using assms
  by (simp add: save_calibration_results_def calibration_stats_eq Let_def
        save_terminal_calibration_def)

text \<open>
  C8. Saving with no samples reports that no samples were recorded and returns the suite as
  it was: no entry is written and the entry of the current signature key, if any, stays. Saving
  at least one sample succeeds, reports the calibration and puts an entry under the current
  signature key, in memory and in the file, that is the same whatever was stored under that key
  before (\<open>prior\<close>: an earlier entry, or none); the entries of all other keys and the
  results stay.
\<close>

theorem save_calibration_results_replaces:
  "save_calibration_results [] m e now st = Inr (No_samples_recorded, st) \<and>
   (samples_s \<noteq> [] \<longrightarrow>
      (\<exists>md p10 p90 entry.
         samples entry = length samples_s \<and> method_label entry = m \<and>
         calibrated entry = now \<and> env entry = terminal_signature e \<and>
         (\<forall>prior.
            save_calibration_results samples_s m e now
              (st\<lparr>terminal_calibration := (terminal_calibration st)(terminal_signature_key e := prior)\<rparr>) =
            Inr (Calibration_complete m md p10 p90 (length samples_s),
                 st\<lparr>terminal_calibration := (terminal_calibration st)(terminal_signature_key e \<mapsto> entry),
                    calibration_written :=
                      Some ((terminal_calibration st)(terminal_signature_key e \<mapsto> entry))\<rparr>))))"
proof -
  have none: "save_calibration_results [] m e now st = Inr (No_samples_recorded, st)"
    by (simp add: save_calibration_results_def)
  have some: "\<exists>md p10 p90 entry.
         samples entry = length samples_s \<and> method_label entry = m \<and>
         calibrated entry = now \<and> env entry = terminal_signature e \<and>
         (\<forall>prior.
            save_calibration_results samples_s m e now
              (st\<lparr>terminal_calibration := (terminal_calibration st)(terminal_signature_key e := prior)\<rparr>) =
            Inr (Calibration_complete m md p10 p90 (length samples_s),
                 st\<lparr>terminal_calibration := (terminal_calibration st)(terminal_signature_key e \<mapsto> entry),
                    calibration_written :=
                      Some ((terminal_calibration st)(terminal_signature_key e \<mapsto> entry))\<rparr>))"
    if ne: "samples_s \<noteq> []"
    by (intro exI conjI allI) (simp_all add: save_calibration_results_nonempty [OF ne] Let_def)
  from none some show ?thesis by blast
qed

theorem save_calibration_results_replaces_witness:
  "[0.02, 0.01] \<noteq> ([]::real list) \<and>
   (\<exists>st'. save_calibration_results [0.02, 0.01] ''Manual timing''
        \<lparr>platform_system = ''Linux'', platform_release = ''6.1'',
         platform_python_version = ''3.11'', environ = [''SHELL'' \<mapsto> ''/bin/sh'']\<rparr>
        ''2024-01-02T09:00:00''
        \<lparr>results = Map.empty, terminal_calibration = Map.empty,
         results_written = None, calibration_written = None\<rparr> =
      Inr (Calibration_complete ''Manual timing'' 15 10 20 2, st') \<and>
      terminal_calibration st' ''Linux|||/bin/sh'' =
        Some \<lparr>median_ms = 15, p10_ms = 10, p90_ms = 20, samples = 2,
              method_label = ''Manual timing'', calibrated = ''2024-01-02T09:00:00'',
              env = \<lparr>os = ''Linux'', os_version = ''6.1'', python = ''3.11'',
                     terminal_program = [], terminal_version = [], shell = ''/bin/sh''\<rparr>\<rparr>)"
proof -
  have ne: "[0.02, 0.01] \<noteq> ([]::real list)" by simp
  have vals: "middle [10, 20] = 15 \<and> nearest_rank (1 / 10) [10, 20] = 10 \<and>
      nearest_rank (9 / 10) [10, 20] = 20 \<and> py_round_digits 15 (Suc 0) = 15 \<and>
      py_round_digits 10 (Suc 0) = 10 \<and> py_round_digits 20 (Suc 0) = 20"
    by code_simp
  from save_calibration_results_replaces
    [where samples_s = "[0.02, 0.01]" and m = "''Manual timing''" and now = "''2024-01-02T09:00:00''"
       and e = "\<lparr>platform_system = ''Linux'', platform_release = ''6.1'',
         platform_python_version = ''3.11'', environ = [''SHELL'' \<mapsto> ''/bin/sh'']\<rparr>"
       and st = "\<lparr>results = Map.empty, terminal_calibration = Map.empty,
         results_written = None, calibration_written = None\<rparr>"] ne
  show ?thesis
    by (simp add: save_calibration_results_nonempty Let_def vals terminal_signature_key_def
          terminal_signature_def signature_key_def environ_get_def)
qed

subsection \<open>The adjusted reaction-time score\<close>

text \<open>
  C6. The adjusted score of the reaction-time test is \<open>max 0 (raw_score - baseline)\<close> and
  so never negative, whatever the raw score and the baseline are. The clamp is applied to the
  adjusted average that a completed test stores with its result (stored rounded to three
  decimals, still not negative), and to the value that the displays compute from the raw score
  and the current baseline for a result that has no stored adjusted average.
\<close>

theorem reaction_adjusted_clamped:
  "avg_adjusted raw_score baseline = max 0 (raw_score - baseline) \<and>
   0 \<le> avg_adjusted raw_score baseline \<and>
   stored_adjusted (reaction_time_test ts e now st) =
     Some (py_round_digits
             (max 0 (sum_list ts / real (length ts) - get_active_baseline_seconds e st)) 3) \<and>
   0 \<le> py_round_digits
          (max 0 (sum_list ts / real (length ts) - get_active_baseline_seconds e st)) 3 \<and>
   (map_of (details r) ''adjusted_average_s'' = None \<longrightarrow>
      adjusted_score r baseline = Inr (max 0 (score r - baseline)) \<and>
      0 \<le> max 0 (score r - baseline))"
  by (simp add: avg_adjusted_def stored_adjusted_def history_def reaction_time_test_def
        record_result_def save_results_def Let_def adjusted_score_def py_round_digits_nonneg)

theorem reaction_adjusted_clamped_witness:
  "map_of (details \<lparr>timestamp = ''2024-01-02T09:00:00'', score = 0.25, details = []\<rparr>)
      ''adjusted_average_s'' = None \<and>
   adjusted_score \<lparr>timestamp = ''2024-01-02T09:00:00'', score = 0.25, details = []\<rparr> 0.3 = Inr 0 \<and>
   adjusted_score \<lparr>timestamp = ''2024-01-02T09:00:00'', score = 0.25, details = []\<rparr> 0.1 = Inr 0.15"
  using reaction_adjusted_clamped
      [where r = "\<lparr>timestamp = ''2024-01-02T09:00:00'', score = 0.25, details = []\<rparr>"
         and baseline = "0.3"]
    reaction_adjusted_clamped
      [where r = "\<lparr>timestamp = ''2024-01-02T09:00:00'', score = 0.25, details = []\<rparr>"
         and baseline = "0.1"]
  by simp

subsection \<open>The signature key\<close>

text \<open>
  C3, as the code has it. The key is a function of the signature, and of four of its six
  attributes only: OS name, terminal program, terminal program version and shell. Changing any
  one of these four, the others staying as they are, changes the key; changing the OS version
  or the runtime version does not. The same in terms of what is read from the system: the
  platform name and the variables \<^verbatim>\<open>TERM_PROGRAM\<close>,
  \<^verbatim>\<open>TERM_PROGRAM_VERSION\<close> and \<^verbatim>\<open>SHELL\<close> decide the key, the platform
  release and the Python version have no influence on it.
\<close>

theorem signature_key_four_attributes:
  "terminal_signature_key e = signature_key (terminal_signature e) \<and>
   (signature_key (sig\<lparr>os := v\<rparr>) = signature_key sig \<longleftrightarrow> v = os sig) \<and>
   (signature_key (sig\<lparr>terminal_program := v\<rparr>) = signature_key sig \<longleftrightarrow>
      v = terminal_program sig) \<and>
   (signature_key (sig\<lparr>terminal_version := v\<rparr>) = signature_key sig \<longleftrightarrow>
      v = terminal_version sig) \<and>
   (signature_key (sig\<lparr>shell := v\<rparr>) = signature_key sig \<longleftrightarrow> v = shell sig) \<and>
   signature_key (sig\<lparr>os_version := v\<rparr>) = signature_key sig \<and>
   signature_key (sig\<lparr>python := v\<rparr>) = signature_key sig \<and>
   (terminal_signature_key (e\<lparr>platform_system := v\<rparr>) = terminal_signature_key e \<longleftrightarrow>
      v = platform_system e) \<and>
   (terminal_signature_key (e\<lparr>environ := (environ e)(''TERM_PROGRAM'' \<mapsto> v)\<rparr>) =
      terminal_signature_key e \<longleftrightarrow> v = terminal_program (terminal_signature e)) \<and>
   (terminal_signature_key (e\<lparr>environ := (environ e)(''TERM_PROGRAM_VERSION'' \<mapsto> v)\<rparr>) =
      terminal_signature_key e \<longleftrightarrow> v = terminal_version (terminal_signature e)) \<and>
   (terminal_signature_key (e\<lparr>environ := (environ e)(''SHELL'' \<mapsto> v)\<rparr>) =
      terminal_signature_key e \<longleftrightarrow> v = shell (terminal_signature e)) \<and>
   terminal_signature_key (e\<lparr>platform_release := v\<rparr>) = terminal_signature_key e \<and>
   terminal_signature_key (e\<lparr>platform_python_version := v\<rparr>) = terminal_signature_key e"
  by (simp add: terminal_signature_key_def signature_key_def terminal_signature_def
        environ_get_def Let_def)

text \<open>
  Two environments that differ in the OS version only: their signatures differ, their keys are
  the same.
\<close>

theorem signature_key_ignores_os_version:
  "os_version (terminal_signature
      \<lparr>platform_system = ''Linux'', platform_release = ''5.15'',
       platform_python_version = ''3.11'', environ = [''SHELL'' \<mapsto> ''/bin/bash'']\<rparr>) \<noteq>
   os_version (terminal_signature
      \<lparr>platform_system = ''Linux'', platform_release = ''6.1'',
       platform_python_version = ''3.11'', environ = [''SHELL'' \<mapsto> ''/bin/bash'']\<rparr>) \<and>
   terminal_signature_key
      \<lparr>platform_system = ''Linux'', platform_release = ''5.15'',
       platform_python_version = ''3.11'', environ = [''SHELL'' \<mapsto> ''/bin/bash'']\<rparr> =
   terminal_signature_key
      \<lparr>platform_system = ''Linux'', platform_release = ''6.1'',
       platform_python_version = ''3.11'', environ = [''SHELL'' \<mapsto> ''/bin/bash'']\<rparr>"
  by (simp add: terminal_signature_key_def terminal_signature_def signature_key_def
        environ_get_def)

subsection \<open>The trend\<close>

lemma lower_better_False: "lower_better (get_test_info n) = False"
  by (simp add: get_test_info_def test_info_table_def default_test_info_def)

text \<open>
  Every test is marked higher-is-better, so the trend line of any test has the verdict
  improving if the average of the last three scores is greater than the average of the first
  three, and declining otherwise; the magnitude is the absolute difference of the two averages.
\<close>

lemma trend_eq:
  "6 \<le> length scores \<Longrightarrow>
   trend n scores =
     Some (if sum_list (drop (length scores - 3) scores) / 3 > sum_list (take 3 scores) / 3
           then ''improving'' else ''declining'',
           \<bar>sum_list (drop (length scores - 3) scores) / 3 - sum_list (take 3 scores) / 3\<bar>)"
  by (simp add: trend_def lower_better_False Let_def)

text \<open>
  C1 says that a lower-is-better test improves when the average of the last three scores is
  below that of the first three, so that the arithmetic test with the times 15, 14, 13, 9, 8, 7
  is improving with magnitude 6, and that equal averages are stable. The trend line computed
  for these times is declining with magnitude 6, and for six equal digit-span scores it is
  declining with magnitude 0.
\<close>

theorem trend_falling_times_declining:
  "trend ''Mental Math'' [15, 14, 13, 9, 8, 7] = Some (''declining'', 6) \<and>
   trend ''Digit Span'' [5, 5, 5, 5, 5, 5] = Some (''declining'', 0)"
  by (simp add: trend_eq)

subsection \<open>The adaptive range\<close>

lemma test_names_cases:
  "n \<in> set test_names \<longleftrightarrow>
     n = ''Reaction Time'' \<or> n = ''Digit Span'' \<or> n = ''Mental Math'' \<or>
     n = ''Word Recall'' \<or> n = ''Stroop Test'' \<or> n = ''Sustained Attention''"
  unfolding test_names_def by (simp only: list.set insert_iff empty_iff simp_thms)

lemma py_min_Min: "py_min x xs = Min (set (x # xs))"
  unfolding py_min_def by (rule Min.set_eq_fold [symmetric])

lemma py_max_Max: "py_max x xs = Max (set (x # xs))"
  unfolding py_max_def by (rule Max.set_eq_fold [symmetric])

lemma get_adaptive_y_range_band_range:
  assumes "get_performance_bands n \<noteq> []" "vs \<noteq> []"
  shows "get_adaptive_y_range n vs =
     band_range (Min (set vs)) (Max (set vs)) (get_performance_bands n)"
proof -
  obtain v vs' where vs: "vs = v # vs'" using assms(2) by (cases vs) auto
  show ?thesis
    using assms(1) unfolding vs
    by (simp add: get_adaptive_y_range_def band_range_def Let_def
          py_min_Min [of v vs'] py_max_Max [of v vs']
        del: set_simps cong: list.case_cong)
qed

lemma touched_bands_filter:
  "touched_bands n vs = filter (in_range (Min (set vs)) (Max (set vs))) (get_performance_bands n)"
  unfolding touched_bands_def in_range_def [abs_def] by simp

text \<open>
  The range of a table of four adjoining bands, for any least and greatest value: without a
  touched band the padded range, which contains the values; with one, a range from a lower band
  bound to an upper band bound that reaches down to the least value exactly if that is not below
  the table, and up to the greatest value exactly if that is not above the table.
\<close>

lemma band_range_four:
  assumes "a < b" "b < c" "c < d" "d < e" "lo \<le> hi"
  shows "(filter (in_range lo hi) [(n1, a, b), (n2, b, c), (n3, c, d), (n4, d, e)] = [] \<longrightarrow>
            fst (band_range lo hi [(n1, a, b), (n2, b, c), (n3, c, d), (n4, d, e)]) \<le> lo \<and>
            hi \<le> snd (band_range lo hi [(n1, a, b), (n2, b, c), (n3, c, d), (n4, d, e)])) \<and>
         (filter (in_range lo hi) [(n1, a, b), (n2, b, c), (n3, c, d), (n4, d, e)] \<noteq> [] \<longrightarrow>
            fst (band_range lo hi [(n1, a, b), (n2, b, c), (n3, c, d), (n4, d, e)]) \<in> {a, b, c, d} \<and>
            snd (band_range lo hi [(n1, a, b), (n2, b, c), (n3, c, d), (n4, d, e)]) \<in> {b, c, d, e} \<and>
            (fst (band_range lo hi [(n1, a, b), (n2, b, c), (n3, c, d), (n4, d, e)]) \<le> lo
               \<longleftrightarrow> a \<le> lo) \<and>
            (hi \<le> snd (band_range lo hi [(n1, a, b), (n2, b, c), (n3, c, d), (n4, d, e)])
               \<longleftrightarrow> hi \<le> e))"
  using assms
  by (auto simp add: band_range_def in_range_def py_min_def py_max_def Let_def)

lemma adaptive_range_four:
  assumes bands: "get_performance_bands n = [(n1, a, b), (n2, b, c), (n3, c, d), (n4, d, e)]"
    and dom: "fixed_range n = (a, e)"
    and ord: "a < b" "b < c" "c < d" "d < e"
    and vs: "vs \<noteq> []"
  shows "(touched_bands n vs = [] \<longrightarrow>
            fst (get_adaptive_y_range n vs) \<le> Min (set vs) \<and>
            Max (set vs) \<le> snd (get_adaptive_y_range n vs)) \<and>
         (touched_bands n vs \<noteq> [] \<longrightarrow>
            fst (get_adaptive_y_range n vs) \<in>
              set (map (\<lambda>(band_name, b_min, b_max). b_min) (get_performance_bands n)) \<and>
            snd (get_adaptive_y_range n vs) \<in>
              set (map (\<lambda>(band_name, b_min, b_max). b_max) (get_performance_bands n)) \<and>
            (fst (get_adaptive_y_range n vs) \<le> Min (set vs)
               \<longleftrightarrow> fst (fixed_range n) \<le> Min (set vs)) \<and>
            (Max (set vs) \<le> snd (get_adaptive_y_range n vs)
               \<longleftrightarrow> Max (set vs) \<le> snd (fixed_range n)))"
proof -
  have le: "Min (set vs) \<le> Max (set vs)" using vs by simp
  have r: "get_adaptive_y_range n vs =
      band_range (Min (set vs)) (Max (set vs)) [(n1, a, b), (n2, b, c), (n3, c, d), (n4, d, e)]"
    using get_adaptive_y_range_band_range [of n vs] bands vs by simp
  have t: "touched_bands n vs =
      filter (in_range (Min (set vs)) (Max (set vs))) [(n1, a, b), (n2, b, c), (n3, c, d), (n4, d, e)]"
    by (simp only: touched_bands_filter bands)
  from band_range_four [OF ord le, of n1 n2 n3 n4]
  show ?thesis
    unfolding r t bands dom by auto
qed

text \<open>
  C2 fails for values below or above the fixed domain: for the arithmetic test (plotted as 22
  less the time per problem) a slow result plotted at -3 and one plotted at 10 give the range
  from 2 to 11, which leaves the value -3 out.
\<close>

theorem adaptive_range_crops_low_value:
  "get_adaptive_y_range ''Mental Math'' [-3, 10] = (2, 11) \<and>
   Min (set [-3, 10 :: real]) = -3 \<and>
   \<not> fst (get_adaptive_y_range ''Mental Math'' [-3, 10]) \<le> Min (set [-3, 10])"
  by (simp add: get_adaptive_y_range_def get_performance_bands_def py_min_def py_max_def
        in_range_def)

text \<open>
  C2, as the code has it. For each of the six tests and every non-empty list of values: if no
  band touches the data range, the range returned is the padded one and contains all values;
  if a band touches it, the lower bound returned is the lower bound of a band and the upper
  bound the upper bound of a band, the lower bound is at most the least value exactly if the
  least value is not below the fixed domain of the test, and the upper bound is at least the
  greatest value exactly if the greatest value is not above the fixed domain. So values within
  the fixed domain are never cropped, values outside it are cropped whenever a band is touched.
\<close>

theorem adaptive_range_bounds:
  assumes "n \<in> set test_names" and "vs \<noteq> []"
  shows "(touched_bands n vs = [] \<longrightarrow>
            fst (get_adaptive_y_range n vs) \<le> Min (set vs) \<and>
            Max (set vs) \<le> snd (get_adaptive_y_range n vs)) \<and>
         (touched_bands n vs \<noteq> [] \<longrightarrow>
            fst (get_adaptive_y_range n vs) \<in>
              set (map (\<lambda>(band_name, b_min, b_max). b_min) (get_performance_bands n)) \<and>
            snd (get_adaptive_y_range n vs) \<in>
              set (map (\<lambda>(band_name, b_min, b_max). b_max) (get_performance_bands n)) \<and>
            (fst (get_adaptive_y_range n vs) \<le> Min (set vs)
               \<longleftrightarrow> fst (fixed_range n) \<le> Min (set vs)) \<and>
            (Max (set vs) \<le> snd (get_adaptive_y_range n vs)
               \<longleftrightarrow> Max (set vs) \<le> snd (fixed_range n)))"
proof -
  from assms(1) have "n = ''Reaction Time'' \<or> n = ''Digit Span'' \<or> n = ''Mental Math'' \<or>
      n = ''Word Recall'' \<or> n = ''Stroop Test'' \<or> n = ''Sustained Attention''"
    by (simp only: test_names_cases)
  then show ?thesis
  proof (elim disjE)
    assume n: "n = ''Reaction Time''"
    have bands: "get_performance_bands ''Reaction Time'' =
        [(''poor'', 0.2, 0.4), (''average'', 0.4, 0.6), (''good'', 0.6, 0.8), (''excellent'', 0.8, 1.0)]"
      by (simp add: get_performance_bands_def)
    have dom: "fixed_range ''Reaction Time'' = (0.2, 1.0)"
      by (simp add: fixed_range_def)
    show ?thesis
      unfolding n by (rule adaptive_range_four [OF bands dom _ _ _ _ assms(2)]) simp_all
  next
    assume n: "n = ''Digit Span''"
    have bands: "get_performance_bands ''Digit Span'' =
        [(''poor'', 0, 4), (''average'', 4, 8), (''good'', 8, 12), (''excellent'', 12, 16)]"
      by (simp add: get_performance_bands_def)
    have dom: "fixed_range ''Digit Span'' = (0, 16)"
      by (simp add: fixed_range_def)
    show ?thesis
      unfolding n by (rule adaptive_range_four [OF bands dom _ _ _ _ assms(2)]) simp_all
  next
    assume n: "n = ''Mental Math''"
    have bands: "get_performance_bands ''Mental Math'' =
        [(''poor'', 2.0, 6.5), (''average'', 6.5, 11.0), (''good'', 11.0, 15.5), (''excellent'', 15.5, 20.0)]"
      by (simp add: get_performance_bands_def)
    have dom: "fixed_range ''Mental Math'' = (2.0, 20.0)"
      by (simp add: fixed_range_def)
    show ?thesis
      unfolding n by (rule adaptive_range_four [OF bands dom _ _ _ _ assms(2)]) simp_all
  next
    assume n: "n = ''Word Recall''"
    have bands: "get_performance_bands ''Word Recall'' =
        [(''poor'', 0, 25), (''average'', 25, 50), (''good'', 50, 75), (''excellent'', 75, 100)]"
      by (simp add: get_performance_bands_def)
    have dom: "fixed_range ''Word Recall'' = (0, 100)"
      by (simp add: fixed_range_def)
    show ?thesis
      unfolding n by (rule adaptive_range_four [OF bands dom _ _ _ _ assms(2)]) simp_all
  next
    assume n: "n = ''Stroop Test''"
    have bands: "get_performance_bands ''Stroop Test'' =
        [(''poor'', 1.0, 2.0), (''average'', 2.0, 3.0), (''good'', 3.0, 4.0), (''excellent'', 4.0, 5.0)]"
      by (simp add: get_performance_bands_def)
    have dom: "fixed_range ''Stroop Test'' = (1.0, 5.0)"
      by (simp add: fixed_range_def)
    show ?thesis
      unfolding n by (rule adaptive_range_four [OF bands dom _ _ _ _ assms(2)]) simp_all
  next
    assume n: "n = ''Sustained Attention''"
    have bands: "get_performance_bands ''Sustained Attention'' =
        [(''poor'', 1.0, 4.0), (''average'', 4.0, 7.0), (''good'', 7.0, 10.0), (''excellent'', 10.0, 13.0)]"
      by (simp add: get_performance_bands_def)
    have dom: "fixed_range ''Sustained Attention'' = (1.0, 13.0)"
      by (simp add: fixed_range_def)
    show ?thesis
      unfolding n by (rule adaptive_range_four [OF bands dom _ _ _ _ assms(2)]) simp_all
  qed
qed

theorem adaptive_range_bounds_witness:
  "''Digit Span'' \<in> set test_names \<and> [16] \<noteq> ([]::real list) \<and>
   touched_bands ''Digit Span'' [16] = [] \<and>
   get_adaptive_y_range ''Digit Span'' [16] = (15, 17) \<and>
   touched_bands ''Digit Span'' [5, 9] = [(''average'', 4, 8), (''good'', 8, 12)] \<and>
   get_adaptive_y_range ''Digit Span'' [5, 9] = (4, 12)"
  using adaptive_range_bounds [of "''Digit Span''" "[16]"]
    adaptive_range_bounds [of "''Digit Span''" "[5, 9]"]
  by (simp add: test_names_def touched_bands_def get_adaptive_y_range_def
        get_performance_bands_def py_min_def py_max_def in_range_def)

subsection \<open>The trial loops\<close>


lemma measured_append: "measured (xs @ ys) = measured xs @ measured ys"
  by (induction xs rule: measured.induct) simp_all


lemma macos_trials_stop:
  "list_all completes pre \<Longrightarrow> \<not> completes x \<Longrightarrow>
   macos_trials (pre @ x # post) s e k =
     (s @ measured (pre @ [x]), (if x = CalledProcessError then e + 1 else e), k + length pre + 1)"
proof (induction pre arbitrary: s k)
  case Nil
  then show ?case by (cases x) simp_all
next
  case (Cons y pre)
  then show ?case by (cases y) simp_all
qed







text \<open>
  The handler of a failed command in the AppleScript loop counts the error and leaves the loop
  without testing the counter: there, the first failed command ends the run.
\<close>

lemma macos_first_failure_ends_run:
  "list_all completes pre \<Longrightarrow>
   macos_trials (pre @ CalledProcessError # post) [] 0 0 = (measured pre, 1, length pre + 1)"
  using macos_trials_stop [of pre CalledProcessError post "[]" 0 0]
  by (simp add: measured_append)

text \<open>
  A run in which every command fails collects no sample, so nothing is saved: the PowerShell
  run gives up at its third trial, the AppleScript run at its first.
\<close>

lemma calibrate_all_commands_fail:
  "calibrate_windows_sendkeys 5 (\<lambda>i. CalledProcessError) e now st = Inr (No_samples_recorded, st) \<and>
   calibrate_macos_terminal 5 (\<lambda>i. CalledProcessError) e now st = Inr (No_samples_recorded, st)"
  by (simp add: calibrate_windows_sendkeys_def calibrate_macos_terminal_def upt_conv_Cons
        save_calibration_results_def)

end
